theory Spec2Isabelle
  imports Complex_Main
begin

section \<open>Numbers of the scripts\<close>

text \<open>
  The scripts compute on Python integers and on IEEE doubles (Python floats and numpy
  float64). Integers are modelled by \<open>int\<close>. A double is modelled by \<open>npfloat\<close>: a real
  number, one of the two infinities, or NaN. Arithmetic on finite values is exact real
  arithmetic: the rounding error of a double operation is not modelled, and neither is
  the sign of zero (a zero divisor is taken as \<open>+0.0\<close>, the only zero the scripts
  produce). What is modelled is how numpy treats division by zero (a warning, and the
  result is an infinity or NaN, not an exception) and how NaN and the infinities flow
  through the later operations.
\<close>

datatype npfloat = Fin real | PInf | NInf | NaN

datatype error =
    NanToInt          \<comment> \<open>ValueError: cannot convert float NaN to integer\<close>
  | InfToInt          \<comment> \<open>OverflowError: cannot convert float infinity to integer\<close>
  | EmptyArray        \<comment> \<open>ValueError of numpy on an empty array (np.pad, np.min, np.max)\<close>
  | NegativePad       \<comment> \<open>ValueError of np.pad: a pad width is negative\<close>
  | IndexOutOfRange   \<comment> \<open>IndexError\<close>
  | BadSleepLength    \<comment> \<open>ValueError or OverflowError of time.sleep: the length is negative, NaN or infinite\<close>
  | NotEnoughPeaks    \<comment> \<open>ValueError("Not enough R-peaks detected. ...") of the pre-recorded bridge\<close>

fun fl_neg :: "npfloat \<Rightarrow> npfloat" where
  "fl_neg (Fin a) = Fin (- a)"
| "fl_neg PInf = NInf"
| "fl_neg NInf = PInf"
| "fl_neg NaN = NaN"

fun fl_add :: "npfloat \<Rightarrow> npfloat \<Rightarrow> npfloat" where
  "fl_add (Fin a) (Fin b) = Fin (a + b)"
| "fl_add (Fin a) PInf = PInf"
| "fl_add (Fin a) NInf = NInf"
| "fl_add PInf (Fin b) = PInf"
| "fl_add PInf PInf = PInf"
| "fl_add PInf NInf = NaN"
| "fl_add NInf (Fin b) = NInf"
| "fl_add NInf PInf = NaN"
| "fl_add NInf NInf = NInf"
| "fl_add NaN y = NaN"
| "fl_add x NaN = NaN"

definition fl_sub :: "npfloat \<Rightarrow> npfloat \<Rightarrow> npfloat" where
  "fl_sub x y = fl_add x (fl_neg y)"

text \<open>The sign of an infinite product or quotient: \<open>True\<close> is positive.\<close>

definition signed_inf :: "bool \<Rightarrow> npfloat" where
  "signed_inf positive = (if positive then PInf else NInf)"

fun fl_mul :: "npfloat \<Rightarrow> npfloat \<Rightarrow> npfloat" where
  "fl_mul (Fin a) (Fin b) = Fin (a * b)"
| "fl_mul (Fin a) PInf = (if a = 0 then NaN else signed_inf (0 < a))"
| "fl_mul (Fin a) NInf = (if a = 0 then NaN else signed_inf (a < 0))"
| "fl_mul PInf (Fin b) = (if b = 0 then NaN else signed_inf (0 < b))"
| "fl_mul NInf (Fin b) = (if b = 0 then NaN else signed_inf (b < 0))"
| "fl_mul PInf PInf = PInf"
| "fl_mul PInf NInf = NInf"
| "fl_mul NInf PInf = NInf"
| "fl_mul NInf NInf = PInf"
| "fl_mul NaN y = NaN"
| "fl_mul x NaN = NaN"

text \<open>
  Division of numpy scalars and arrays: a zero divisor gives NaN for \<open>0 / 0\<close> and an
  infinity otherwise; nothing is raised.
\<close>

fun fl_div :: "npfloat \<Rightarrow> npfloat \<Rightarrow> npfloat" where
  "fl_div (Fin a) (Fin b) =
     (if b = 0 then (if a = 0 then NaN else signed_inf (0 < a)) else Fin (a / b))"
| "fl_div (Fin a) PInf = Fin 0"
| "fl_div (Fin a) NInf = Fin 0"
| "fl_div PInf (Fin b) = signed_inf (0 \<le> b)"
| "fl_div NInf (Fin b) = signed_inf (b < 0)"
| "fl_div PInf PInf = NaN"
| "fl_div PInf NInf = NaN"
| "fl_div NInf PInf = NaN"
| "fl_div NInf NInf = NaN"
| "fl_div NaN y = NaN"
| "fl_div x NaN = NaN"

fun fl_sqrt :: "npfloat \<Rightarrow> npfloat" where
  "fl_sqrt (Fin a) = (if a < 0 then NaN else Fin (sqrt a))"
| "fl_sqrt PInf = PInf"
| "fl_sqrt NInf = NaN"
| "fl_sqrt NaN = NaN"

fun fl_abs :: "npfloat \<Rightarrow> npfloat" where
  "fl_abs (Fin a) = Fin \<bar>a\<bar>"
| "fl_abs PInf = PInf"
| "fl_abs NInf = PInf"
| "fl_abs NaN = NaN"

text \<open>The comparison \<open><\<close> of doubles: false as soon as one side is NaN.\<close>

fun fl_less :: "npfloat \<Rightarrow> npfloat \<Rightarrow> bool" where
  "fl_less (Fin a) (Fin b) = (a < b)"
| "fl_less (Fin a) PInf = True"
| "fl_less NInf (Fin b) = True"
| "fl_less NInf PInf = True"
| "fl_less x y = False"

definition fl_is_nan :: "npfloat \<Rightarrow> bool" where
  "fl_is_nan x = (case x of NaN \<Rightarrow> True | _ \<Rightarrow> False)"

text \<open>\<open>a >= b\<close> on doubles.\<close>

fun fl_ge :: "npfloat \<Rightarrow> npfloat \<Rightarrow> bool" where
  "fl_ge NaN y = False"
| "fl_ge x NaN = False"
| "fl_ge x y = (\<not> fl_less x y)"

text \<open>\<open>np.maximum\<close> and \<open>np.minimum\<close> propagate NaN; \<open>np.clip(x, lo, hi)\<close> is
  \<open>np.minimum(np.maximum(x, lo), hi)\<close>, so that \<open>lo > hi\<close> gives \<open>hi\<close>.\<close>

definition np_maximum :: "npfloat \<Rightarrow> npfloat \<Rightarrow> npfloat" where
  "np_maximum x y = (if fl_is_nan x then NaN else if fl_is_nan y then NaN else if fl_less x y then y else x)"

definition np_minimum :: "npfloat \<Rightarrow> npfloat \<Rightarrow> npfloat" where
  "np_minimum x y = (if fl_is_nan x then NaN else if fl_is_nan y then NaN else if fl_less y x then y else x)"

definition np_clip :: "npfloat \<Rightarrow> npfloat \<Rightarrow> npfloat \<Rightarrow> npfloat" where
  "np_clip x lo hi = np_minimum (np_maximum x lo) hi"

text \<open>Python's built-in \<open>max(a, b)\<close> and \<open>min(a, b)\<close> keep the first argument unless the
  second compares strictly beyond it.\<close>

definition py_max :: "npfloat \<Rightarrow> npfloat \<Rightarrow> npfloat" where
  "py_max a b = (if fl_less a b then b else a)"

definition py_min :: "npfloat \<Rightarrow> npfloat \<Rightarrow> npfloat" where
  "py_min a b = (if fl_less b a then b else a)"

text \<open>\<open>round(x)\<close> of Python and numpy rounds to the nearest integer, a tie to the even
  one; \<open>int(x)\<close> truncates toward zero.\<close>

definition py_round :: "real \<Rightarrow> int" where
  "py_round x =
     (let f = \<lfloor>x\<rfloor>; d = x - of_int f
      in if d < 1 / 2 then f else if 1 / 2 < d then f + 1 else if even f then f else f + 1)"

definition py_trunc :: "real \<Rightarrow> int" where
  "py_trunc x = (if 0 \<le> x then \<lfloor>x\<rfloor> else \<lceil>x\<rceil>)"

text \<open>\<open>int(round(x))\<close> and \<open>int(x)\<close> of a double raise on NaN and on an infinity.\<close>

fun int_round :: "npfloat \<Rightarrow> error + int" where
  "int_round (Fin a) = Inr (py_round a)"
| "int_round PInf = Inl InfToInt"
| "int_round NInf = Inl InfToInt"
| "int_round NaN = Inl NanToInt"

fun int_trunc :: "npfloat \<Rightarrow> error + int" where
  "int_trunc (Fin a) = Inr (py_trunc a)"
| "int_trunc PInf = Inl InfToInt"
| "int_trunc NInf = Inl InfToInt"
| "int_trunc NaN = Inl NanToInt"

section \<open>The Mapper\<close>

text \<open>
  \<open>bpm_to_note_quantized\<close> and \<open>bpm_to_velocity\<close> of the live bridges (the output range is
  a default argument in \<open>bridge_live_test.py\<close> and a global in \<open>bridge_live_test3.py\<close>) and
  \<open>bpm_to_cc113\<close> of the pre-recorded bridge (its BPM range and its output range
  \<open>min_cc113\<close>, \<open>max_cc113\<close> are globals of the script, here arguments).
\<close>

definition min_note :: int where "min_note = 48"
definition max_note :: int where "max_note = 84"
definition min_velocity :: int where "min_velocity = 50"
definition max_velocity :: int where "max_velocity = 70"
definition min_cc113 :: int where "min_cc113 = 0"
definition max_cc113 :: int where "max_cc113 = 127"

text \<open>The first two lines of each of the three functions: clip, then normalise.\<close>

definition bpm_norm :: "npfloat \<Rightarrow> npfloat \<Rightarrow> npfloat \<Rightarrow> npfloat" where
  "bpm_norm bpm min_bpm max_bpm =
     (let bpm = np_clip bpm min_bpm max_bpm
      in fl_div (fl_sub bpm min_bpm) (fl_sub max_bpm min_bpm))"

definition bpm_to_note_quantized :: "npfloat \<Rightarrow> npfloat \<Rightarrow> npfloat \<Rightarrow> int \<Rightarrow> int \<Rightarrow> error + int" where
  "bpm_to_note_quantized bpm min_bpm max_bpm lo_note hi_note =
     (let norm = bpm_norm bpm min_bpm max_bpm;
          note_float = fl_add (Fin (of_int lo_note)) (fl_mul norm (Fin (of_int (hi_note - lo_note))))
      in int_round note_float)"

definition bpm_to_velocity :: "npfloat \<Rightarrow> npfloat \<Rightarrow> npfloat \<Rightarrow> int \<Rightarrow> int \<Rightarrow> error + int" where
  "bpm_to_velocity bpm min_bpm max_bpm lo_velocity hi_velocity =
     (let norm = bpm_norm bpm min_bpm max_bpm
      in int_trunc (fl_add (Fin (of_int lo_velocity))
                      (fl_mul (Fin (of_int (hi_velocity - lo_velocity))) (fl_sqrt norm))))"

definition bpm_to_cc113 :: "npfloat \<Rightarrow> npfloat \<Rightarrow> npfloat \<Rightarrow> int \<Rightarrow> int \<Rightarrow> error + int" where
  "bpm_to_cc113 bpm min_bpm max_bpm lo_cc hi_cc =
     (let norm = bpm_norm bpm min_bpm max_bpm
      in int_round (fl_add (Fin (of_int lo_cc)) (fl_mul norm (Fin (of_int (hi_cc - lo_cc))))))"


text \<open>
  The claim about the velocity curve compares the velocity with "the value linear
  interpolation of the velocity range would give". This definition follows those words;
  no script computes it.
\<close>

definition linear_interpolation :: "real \<Rightarrow> real \<Rightarrow> real \<Rightarrow> int \<Rightarrow> int \<Rightarrow> real" where
  "linear_interpolation bpm min_bpm max_bpm lo_velocity hi_velocity =
     of_int lo_velocity
       + of_int (hi_velocity - lo_velocity)
           * ((min (max bpm min_bpm) max_bpm - min_bpm) / (max_bpm - min_bpm))"

section \<open>The Glide Controller\<close>

subsection \<open>Discrete glide of the live bridges\<close>

text \<open>
  The five lines after \<open>note_distance = target_note - current_note\<close> in the main loop of
  the three live bridges. \<open>note_glide_speed\<close> is the global \<open>0.2\<close>; the product
  \<open>note_distance * note_glide_speed\<close> is taken exactly.
\<close>

definition note_glide_speed :: real where
  "note_glide_speed = 1 / 5"

definition glide_step :: "real \<Rightarrow> int \<Rightarrow> int" where
  "glide_step speed note_distance =
     (let step = py_round (of_int note_distance * speed)
      in if step = 0 \<and> note_distance \<noteq> 0 then sgn note_distance else step)"

definition glide_update :: "real \<Rightarrow> int \<Rightarrow> int \<Rightarrow> int" where
  "glide_update speed target_note current =
     (let note_distance = target_note - current;
          note_to_play = current + glide_step speed note_distance
      in note_to_play)"

subsection \<open>Continuous glide of the pre-recorded bridge\<close>

datatype midi_event =
    Note_on int int           \<comment> \<open>note, velocity\<close>
  | Note_off int int          \<comment> \<open>note, velocity\<close>
  | Control_change int int    \<comment> \<open>control, value\<close>

definition glide_speed :: real where
  "glide_speed = 1 / 10"

definition cc_step :: "real \<Rightarrow> int \<Rightarrow> int \<Rightarrow> int" where
  "cc_step speed target_cc cc_value =
     max 1 (py_trunc (of_int \<bar>target_cc - cc_value\<bar> * speed))"

definition cc_advance :: "real \<Rightarrow> int \<Rightarrow> int \<Rightarrow> int" where
  "cc_advance speed target_cc cc_value =
     (let step = cc_step speed target_cc cc_value
      in if cc_value < target_cc then min target_cc (cc_value + step)
         else max target_cc (cc_value - step))"

text \<open>
  The \<open>while cc_value != target_cc\<close> loop. It returns the final \<open>cc_value\<close> (which is also
  the final \<open>last_cc113\<close>) and the messages sent so far; \<open>None\<close> stands for a loop that
  does not return.
\<close>

partial_function (option) cc_glide_loop ::
    "real \<Rightarrow> int \<Rightarrow> int \<Rightarrow> midi_event list \<Rightarrow> (int \<times> midi_event list) option" where
  "cc_glide_loop speed target_cc cc_value sent =
     (if cc_value \<noteq> target_cc
      then cc_glide_loop speed target_cc (cc_advance speed target_cc cc_value)
             (sent @ [Control_change 113 (cc_advance speed target_cc cc_value)])
      else Some (cc_value, sent))"

text \<open>
  The increment of the continuous glide in the words of the specification:
  \<open>max(1, round(|target - current| * glide_speed))\<close>.
\<close>

definition spec_cc_step :: "real \<Rightarrow> int \<Rightarrow> int \<Rightarrow> int" where
  "spec_cc_step speed target_cc cc_value =
     max 1 (py_round (of_int \<bar>target_cc - cc_value\<bar> * speed))"

section \<open>The Interval Estimator\<close>

text \<open>An array of doubles is a list. \<open>np.diff\<close>, \<open>np.min\<close>, \<open>np.max\<close> and \<open>np.median\<close>
  (NaN as soon as one element is NaN, the mean of the two middle elements for an even
  length):\<close>

fun np_diff :: "npfloat list \<Rightarrow> npfloat list" where
  "np_diff (x # y # ys) = fl_sub y x # np_diff (y # ys)"
| "np_diff [x] = []"
| "np_diff [] = []"

fun np_amin :: "npfloat list \<Rightarrow> error + npfloat" where
  "np_amin [] = Inl EmptyArray"
| "np_amin (x # xs) = Inr (fold (\<lambda>y m. np_minimum m y) xs x)"

fun np_amax :: "npfloat list \<Rightarrow> error + npfloat" where
  "np_amax [] = Inl EmptyArray"
| "np_amax (x # xs) = Inr (fold (\<lambda>y m. np_maximum m y) xs x)"

fun fl_insort :: "npfloat \<Rightarrow> npfloat list \<Rightarrow> npfloat list" where
  "fl_insort x [] = [x]"
| "fl_insort x (y # ys) = (if fl_less y x then y # fl_insort x ys else x # y # ys)"

definition fl_sort :: "npfloat list \<Rightarrow> npfloat list" where
  "fl_sort xs = foldr fl_insort xs []"

definition np_median :: "npfloat list \<Rightarrow> npfloat" where
  "np_median xs =
     (if list_ex fl_is_nan xs then NaN
      else let s = fl_sort xs; n = length s
           in if n = 0 then NaN
              else if odd n then s ! (n div 2)
              else fl_div (fl_add (s ! (n div 2 - 1)) (s ! (n div 2))) (Fin 2))"

text \<open>\<open>xs[-1]\<close>, and \<open>xs[i] if i < len(ys) else xs[-1]\<close> of the pre-recorded bridge.\<close>

definition py_last :: "'a list \<Rightarrow> error + 'a" where
  "py_last xs = (if xs = [] then Inl IndexOutOfRange else Inr (last xs))"

definition index_or_last :: "'a list \<Rightarrow> nat \<Rightarrow> nat \<Rightarrow> error + 'a" where
  "index_or_last xs bound i =
     (if i < bound then (if i < length xs then Inr (xs ! i) else Inl IndexOutOfRange)
      else py_last xs)"

text \<open>
  \<open>moving_median\<close> of \<open>bridge_prerecorded_modulation.py\<close> and \<open>bridge_live_test3.py\<close>:
  \<open>np.pad(data, (w // 2, w - 1 - w // 2), mode='edge')\<close>, then the median of each window.
  \<open>np.pad\<close> raises on a negative pad width and on an empty array that it is asked to
  extend.
\<close>

definition np_pad_edge :: "npfloat list \<Rightarrow> int \<Rightarrow> int \<Rightarrow> error + npfloat list" where
  "np_pad_edge data before after =
     (if before < 0 \<or> after < 0 then Inl NegativePad
      else if data = [] then (if before = 0 \<and> after = 0 then Inr [] else Inl EmptyArray)
      else Inr (replicate (nat before) (hd data) @ data @ replicate (nat after) (last data)))"

definition moving_median :: "npfloat list \<Rightarrow> nat \<Rightarrow> error + npfloat list" where
  "moving_median data window_size =
     (case np_pad_edge data (int (window_size div 2)) (int window_size - 1 - int (window_size div 2)) of
        Inl e \<Rightarrow> Inl e
      | Inr padded \<Rightarrow>
          Inr (map (\<lambda>i. np_median (take window_size (drop i padded))) [0..<length data]))"

text \<open>
  \<open>scipy.signal.medfilt(volume, kernel_size=3)\<close> of \<open>bridge_live_test.py\<close> and
  \<open>bridge_live_test2.py\<close>, a library function: the median of each window of three, the
  array padded with one zero on each side.
\<close>

definition medfilt :: "npfloat list \<Rightarrow> npfloat list" where
  "medfilt volume =
     (let padded = Fin 0 # volume @ [Fin 0]
      in map (\<lambda>i. np_median (take 3 (drop i padded))) [0..<length volume])"

section \<open>The detection passes\<close>

text \<open>
  The Mapping State of a live bridge is the pair of globals \<open>current_note\<close> and
  \<open>last_bpm\<close>, both \<open>None\<close> at the start. A pass of the main loop is the block that runs
  after \<open>find_peaks\<close>, a library call whose result is the input here. Errors are the
  exceptions that leave the loop: it catches \<open>KeyboardInterrupt\<close> only.
\<close>

record mapping_state =
  current_note :: "int option"
  last_bpm :: "npfloat option"

definition initial_state :: mapping_state where
  "initial_state = \<lparr>current_note = None, last_bpm = None\<rparr>"

definition and_then :: "error + 'a \<Rightarrow> ('a \<Rightarrow> error + 'b) \<Rightarrow> error + 'b" where
  "and_then r f = (case r of Inl e \<Rightarrow> Inl e | Inr x \<Rightarrow> f x)"

text \<open>
  The update gate: \<open>last_bpm is None or abs(bpm_value - last_bpm) >= bpm_change_threshold\<close>.
  The threshold is a global of each script, \<open>1.0\<close> in \<open>bridge_live_test.py\<close> and
  \<open>bridge_live_test2.py\<close> and \<open>3\<close> in \<open>bridge_live_test3.py\<close>; the passes below take
  it as an argument.
\<close>

definition live_bpm_change_threshold :: real where
  "live_bpm_change_threshold = 1"

definition live3_bpm_change_threshold :: real where
  "live3_bpm_change_threshold = 3"

definition gate_open :: "real \<Rightarrow> npfloat \<Rightarrow> npfloat option \<Rightarrow> bool" where
  "gate_open bpm_change_threshold bpm_value previous =
     (case previous of
        None \<Rightarrow> True
      | Some l \<Rightarrow> fl_ge (fl_abs (fl_sub bpm_value l)) (Fin bpm_change_threshold))"

text \<open>
  The block under the gate, from \<open>if current_note is None\<close> to \<open>current_note = note_to_play\<close>,
  the same in the three live bridges: it returns the new \<open>current_note\<close>, which is the
  note played.
\<close>

definition glide_note :: "int option \<Rightarrow> int \<Rightarrow> int" where
  "glide_note current target_note =
     (let current = (case current of None \<Rightarrow> target_note | Some c \<Rightarrow> c)
      in glide_update note_glide_speed target_note current)"

subsection \<open>\<open>bridge_live_test.py\<close> and \<open>bridge_live_test2.py\<close>\<close>

text \<open>
  The two scripts have the same main loop. (\<open>bridge_live_test.py\<close> opens with a second,
  endless loop that prints the serial lines; the model is of the main loop that follows
  it.) The input of a pass is \<open>peaks\<close>, the sample indices that \<open>find_peaks\<close> returns.
\<close>

definition fs :: real where
  "fs = 1000"

definition live_bpm_values :: "nat list \<Rightarrow> npfloat list" where
  "live_bpm_values peaks =
     (let peak_times = map (\<lambda>p. fl_div (Fin (of_nat p)) (Fin fs)) peaks;
          rr_intervals = np_diff peak_times;
          rr_filtered = medfilt rr_intervals
      in map (fl_div (Fin 60)) rr_filtered)"

definition current_bpm :: "npfloat list \<Rightarrow> error + npfloat" where
  "current_bpm bpm_values =
     (if 3 \<le> length bpm_values
      then Inr (np_median (drop (length bpm_values - 3) bpm_values))
      else py_last bpm_values)"

text \<open>
  From the guard \<open>len(peak_times) > 1\<close> to the range: \<open>None\<close> when the pass is left with
  nothing to map (fewer than two peaks, or the \<open>continue\<close> of the sanity band), and else
  \<open>bpm_value\<close>, \<open>min_bpm\<close> and \<open>max_bpm\<close>.
\<close>

definition live_estimate :: "nat list \<Rightarrow> error + (npfloat \<times> npfloat \<times> npfloat) option" where
  "live_estimate peaks =
     (if 1 < length peaks then
        (let bpm_values = live_bpm_values peaks
         in and_then (current_bpm bpm_values) (\<lambda>bpm_value.
              if fl_less bpm_value (Fin 30) \<or> fl_less (Fin 200) bpm_value then Inr None
              else and_then (np_amin bpm_values) (\<lambda>lowest.
                   and_then (np_amax bpm_values) (\<lambda>highest.
                     Inr (Some (bpm_value, py_max (Fin 40) lowest, py_min (Fin 180) highest))))))
      else Inr None)"

definition live_pass ::
    "real \<Rightarrow> nat list \<Rightarrow> mapping_state \<Rightarrow> error + (mapping_state \<times> midi_event list)" where
  "live_pass bpm_change_threshold peaks s =
     and_then (live_estimate peaks) (\<lambda>estimate.
       case estimate of
         None \<Rightarrow> Inr (s, [])
       | Some (bpm_value, min_bpm, max_bpm) \<Rightarrow>
           if gate_open bpm_change_threshold bpm_value (last_bpm s) then
             and_then (bpm_to_note_quantized bpm_value min_bpm max_bpm min_note max_note) (\<lambda>target_note.
             and_then (bpm_to_velocity bpm_value min_bpm max_bpm min_velocity max_velocity) (\<lambda>velocity.
               let note_to_play = glide_note (current_note s) target_note
               in Inr (\<lparr>current_note = Some note_to_play, last_bpm = Some bpm_value\<rparr>,
                       [Note_on note_to_play velocity, Note_off note_to_play 0])))
           else Inr (s, []))"

subsection \<open>\<open>bridge_live_test3.py\<close>\<close>

text \<open>\<open>time.sleep\<close> raises on a length that is negative, NaN or infinite.\<close>

definition py_sleep :: "npfloat \<Rightarrow> error + unit" where
  "py_sleep seconds =
     (case seconds of Fin r \<Rightarrow> (if r < 0 then Inl BadSleepLength else Inr ())
      | _ \<Rightarrow> Inl BadSleepLength)"

text \<open>
  Here the input is \<open>peak_times\<close>, the timestamps of the buffer at the peaks. There is no
  sanity band and no hard floor or ceiling of the range; the estimate is the last
  smoothed BPM. The fourth component is \<open>rr_interval\<close>.
\<close>

definition live3_estimate ::
    "npfloat list \<Rightarrow> error + (npfloat \<times> npfloat \<times> npfloat \<times> npfloat) option" where
  "live3_estimate peak_times =
     (if 2 \<le> length peak_times then
        (let rr_intervals = np_diff peak_times
         in and_then (moving_median rr_intervals 3) (\<lambda>smoothed_rr.
              let smoothed_bpm = map (fl_div (Fin 60)) smoothed_rr
              in and_then (np_amin smoothed_bpm) (\<lambda>min_bpm.
                 and_then (np_amax smoothed_bpm) (\<lambda>max_bpm_val.
                 and_then (py_last smoothed_bpm) (\<lambda>bpm_value.
                 and_then (py_last smoothed_rr) (\<lambda>rr_interval.
                   Inr (Some (bpm_value, min_bpm, max_bpm_val, rr_interval))))))))
      else Inr None)"

definition live3_pass ::
    "real \<Rightarrow> npfloat list \<Rightarrow> mapping_state \<Rightarrow> error + (mapping_state \<times> midi_event list)" where
  "live3_pass bpm_change_threshold peak_times s =
     and_then (live3_estimate peak_times) (\<lambda>estimate.
       case estimate of
         None \<Rightarrow> Inr (s, [])
       | Some (bpm_value, min_bpm, max_bpm_val, rr_interval) \<Rightarrow>
           if gate_open bpm_change_threshold bpm_value (last_bpm s) then
             and_then (bpm_to_note_quantized bpm_value min_bpm max_bpm_val min_note max_note) (\<lambda>target_note.
             and_then (bpm_to_velocity bpm_value min_bpm max_bpm_val min_velocity max_velocity) (\<lambda>velocity.
               let note_to_play = glide_note (current_note s) target_note
               in and_then (py_sleep (fl_mul rr_interval (Fin (8 / 10)))) (\<lambda>_.
                    Inr (\<lparr>current_note = Some note_to_play, last_bpm = Some bpm_value\<rparr>,
                         [Note_on note_to_play velocity, Note_off note_to_play 0]))))
           else Inr (s, []))"

subsection \<open>\<open>bridge_prerecorded_modulation.py\<close>\<close>

text \<open>
  The script runs once over the peaks of the whole file. Its input is the list of the
  peaks that \<open>find_peaks\<close> returns, each with its time and its height. The result is the
  list of the messages sent, and either the exception that ended the run or the final
  \<open>last_cc113\<close>; \<open>None\<close> stands for a run that does not return.
\<close>

definition wait_rr :: "npfloat list \<Rightarrow> nat \<Rightarrow> error + unit" where
  "wait_rr smoothed_rr i = and_then (index_or_last smoothed_rr (length smoothed_rr) i) py_sleep"

fun send_peaks ::
    "npfloat list \<Rightarrow> npfloat list \<Rightarrow> npfloat \<Rightarrow> npfloat \<Rightarrow> npfloat list \<Rightarrow> nat \<Rightarrow> int \<Rightarrow> midi_event list
       \<Rightarrow> (midi_event list \<times> (error + int)) option" where
  "send_peaks smoothed_rr smoothed_bpm min_bpm max_bpm [] i last_cc113 sent =
     Some (sent, Inr last_cc113)"
| "send_peaks smoothed_rr smoothed_bpm min_bpm max_bpm (height # heights) i last_cc113 sent =
     (if fl_less height (Fin (8 / 10)) then
        (case wait_rr smoothed_rr i of
           Inl e \<Rightarrow> Some (sent, Inl e)
         | Inr _ \<Rightarrow> send_peaks smoothed_rr smoothed_bpm min_bpm max_bpm heights (i + 1) last_cc113 sent)
      else
        (case and_then (index_or_last smoothed_bpm (length smoothed_rr) i)
                (\<lambda>bpm_value. bpm_to_cc113 bpm_value min_bpm max_bpm min_cc113 max_cc113) of
           Inl e \<Rightarrow> Some (sent, Inl e)
         | Inr target_cc \<Rightarrow>
             (case cc_glide_loop glide_speed target_cc last_cc113 sent of
                None \<Rightarrow> None
              | Some (cc_value, sent') \<Rightarrow>
                  (case wait_rr smoothed_rr i of
                     Inl e \<Rightarrow> Some (sent', Inl e)
                   | Inr _ \<Rightarrow>
                       send_peaks smoothed_rr smoothed_bpm min_bpm max_bpm heights (i + 1) cc_value sent'))))"

definition prerecorded_bridge ::
    "(npfloat \<times> npfloat) list \<Rightarrow> (midi_event list \<times> (error + int)) option" where
  "prerecorded_bridge r_peaks =
     (if length r_peaks < 2 then Some ([], Inl NotEnoughPeaks)
      else
        let peak_times = map fst r_peaks;
            peak_heights = map snd r_peaks;
            rr_intervals = np_diff peak_times
        in case moving_median rr_intervals 3 of
             Inl e \<Rightarrow> Some ([], Inl e)
           | Inr smoothed_rr \<Rightarrow>
               let smoothed_bpm = map (fl_div (Fin 60)) smoothed_rr
               in case and_then (np_amin smoothed_bpm) (\<lambda>lo. and_then (np_amax smoothed_bpm) (\<lambda>hi. Inr (lo, hi))) of
                    Inl e \<Rightarrow> Some ([], Inl e)
                  | Inr (min_bpm, max_bpm) \<Rightarrow>
                      send_peaks smoothed_rr smoothed_bpm min_bpm max_bpm peak_heights 0 0 [])"

section \<open>Rounding and truncation\<close>

lemma py_round_of_int: "py_round (of_int n) = n"
  by (simp add: py_round_def)

lemma py_round_mono: "x \<le> y \<Longrightarrow> py_round x \<le> py_round y"
proof -
  assume xy: "x \<le> y"
  then have fl: "\<lfloor>x\<rfloor> \<le> \<lfloor>y\<rfloor>" by (rule floor_mono)
  show ?thesis
  proof (cases "\<lfloor>x\<rfloor> = \<lfloor>y\<rfloor>")
    case True
    with xy show ?thesis by (auto simp: py_round_def Let_def)
  next
    case False
    with fl have "\<lfloor>x\<rfloor> + 1 \<le> \<lfloor>y\<rfloor>" by simp
    moreover have "py_round x \<le> \<lfloor>x\<rfloor> + 1" by (simp add: py_round_def Let_def)
    moreover have "\<lfloor>y\<rfloor> \<le> py_round y" by (simp add: py_round_def Let_def)
    ultimately show ?thesis by linarith
  qed
qed

lemma py_round_upper: "real_of_int (py_round x) \<le> x + 1 / 2"
  unfolding py_round_def Let_def by (auto; linarith)

lemma py_round_lower: "x - 1 / 2 \<le> real_of_int (py_round x)"
  unfolding py_round_def Let_def by (auto; linarith)

lemma py_trunc_of_int: "py_trunc (of_int n) = n"
  by (simp add: py_trunc_def)

lemma py_trunc_mono: "x \<le> y \<Longrightarrow> py_trunc x \<le> py_trunc y"
proof -
  assume xy: "x \<le> y"
  consider "0 \<le> x" | "x < 0" "0 \<le> y" | "x < 0" "y < 0" by linarith
  then show ?thesis
  proof cases
    case 1
    with xy show ?thesis by (simp add: py_trunc_def floor_mono)
  next
    case 2
    then have "\<lceil>x\<rceil> \<le> 0" "0 \<le> \<lfloor>y\<rfloor>" by (simp_all add: ceiling_le_zero)
    then have "\<lceil>x\<rceil> \<le> \<lfloor>y\<rfloor>" by linarith
    with 2 show ?thesis by (simp add: py_trunc_def)
  next
    case 3
    with xy show ?thesis by (simp add: py_trunc_def ceiling_mono)
  qed
qed

section \<open>The Mapper on a proper range and on a degenerate one\<close>

lemma bpm_norm_degenerate: "bpm_norm bpm m m = NaN"
  by (cases bpm; cases m)
     (auto simp: bpm_norm_def np_clip_def np_minimum_def np_maximum_def fl_is_nan_def fl_sub_def Let_def)

lemma bpm_norm_finite:
  "lo < hi \<Longrightarrow>
   bpm_norm (Fin b) (Fin lo) (Fin hi) = Fin ((min (max b lo) hi - lo) / (hi - lo))"
  by (auto simp: bpm_norm_def np_clip_def np_minimum_def np_maximum_def fl_is_nan_def fl_sub_def
        Let_def min_def max_def)

lemma norm_unit:
  "lo < hi \<Longrightarrow>
   0 \<le> (min (max b lo) hi - lo) / (hi - lo) \<and> (min (max b lo) hi - lo) / (hi - lo) \<le> (1::real)"
  by (auto simp: min_def max_def divide_simps)

lemma norm_mono:
  "lo < hi \<Longrightarrow> b \<le> b' \<Longrightarrow>
   (min (max b lo) hi - lo) / (hi - lo) \<le> (min (max b' lo) hi - lo) / ((hi::real) - lo)"
  by (auto simp: min_def max_def divide_simps)

lemma note_finite:
  "lo < hi \<Longrightarrow>
   bpm_to_note_quantized (Fin b) (Fin lo) (Fin hi) lo_note hi_note =
     Inr (py_round (of_int lo_note + (min (max b lo) hi - lo) / (hi - lo) * of_int (hi_note - lo_note)))"
  by (simp add: bpm_to_note_quantized_def bpm_norm_finite)

lemma cc113_finite:
  "lo < hi \<Longrightarrow>
   bpm_to_cc113 (Fin b) (Fin lo) (Fin hi) lo_cc hi_cc =
     Inr (py_round (of_int lo_cc + (min (max b lo) hi - lo) / (hi - lo) * of_int (hi_cc - lo_cc)))"
  by (simp add: bpm_to_cc113_def bpm_norm_finite)

lemma fl_sqrt_nonneg: "0 \<le> a \<Longrightarrow> fl_sqrt (Fin a) = Fin (sqrt a)"
  by simp

lemma velocity_finite:
  "lo < hi \<Longrightarrow>
   bpm_to_velocity (Fin b) (Fin lo) (Fin hi) lo_velocity hi_velocity =
     Inr (py_trunc (of_int lo_velocity
                    + of_int (hi_velocity - lo_velocity) * sqrt ((min (max b lo) hi - lo) / (hi - lo))))"
proof -
  assume a: "lo < hi"
  have "0 \<le> (min (max b lo) hi - lo) / (hi - lo)"
    using norm_unit[OF a, of b] by (rule conjunct1)
  then show ?thesis
    by (simp only: bpm_to_velocity_def bpm_norm_finite[OF a] Let_def fl_sqrt_nonneg
          fl_mul.simps fl_add.simps int_trunc.simps)
qed

lemma scaled_mono:
  fixes s t :: real
  shows "lo \<le> hi \<Longrightarrow> s \<le> t \<Longrightarrow>
         of_int lo + s * of_int (hi - lo) \<le> of_int lo + t * of_int (hi - lo)"
  by (simp add: mult_right_mono)

lemma scaled_lower:
  fixes s :: real
  shows "lo \<le> hi \<Longrightarrow> 0 \<le> s \<Longrightarrow> of_int lo \<le> of_int lo + s * of_int (hi - lo)"
  by simp

lemma scaled_upper:
  fixes s :: real
  shows "lo \<le> hi \<Longrightarrow> s \<le> 1 \<Longrightarrow> of_int lo + s * of_int (hi - lo) \<le> of_int hi"
proof -
  assume a: "lo \<le> hi" "s \<le> 1"
  then have "s * of_int (hi - lo) \<le> 1 * of_int (hi - lo)"
    by (intro mult_right_mono) simp_all
  then show ?thesis by simp
qed

text \<open>
  C1, as the code has it. None of the three Mapper functions tests \<open>max_bpm == min_bpm\<close>.
  On a degenerate range the clipped BPM equals \<open>min_bpm\<close>, the normalisation is \<open>0 / 0\<close>,
  which numpy evaluates to NaN, and the conversion to an integer raises
  \<open>ValueError: cannot convert float NaN to integer\<close>. This holds for every BPM input and
  every output range: no function returns a value, so none returns the midpoint.
\<close>

theorem degenerate_range_raises:
  "bpm_to_note_quantized bpm m m lo_note hi_note = Inl NanToInt \<and>
   bpm_to_velocity bpm m m lo_velocity hi_velocity = Inl NanToInt \<and>
   bpm_to_cc113 bpm m m lo_cc hi_cc = Inl NanToInt"
  by (simp add: bpm_to_note_quantized_def bpm_to_velocity_def bpm_to_cc113_def bpm_norm_degenerate)

text \<open>
  C1, as the claim states it, fails: with \<open>bpm = min_bpm = max_bpm = 72\<close> and the default
  note range 48..84 the note mapping does not return the midpoint 66; it raises.
\<close>

theorem degenerate_range_no_midpoint:
  "bpm_to_note_quantized (Fin 72) (Fin 72) (Fin 72) min_note max_note = Inl NanToInt \<and>
   bpm_to_note_quantized (Fin 72) (Fin 72) (Fin 72) min_note max_note
     \<noteq> Inr ((min_note + max_note) div 2)"
  by (simp add: bpm_to_note_quantized_def bpm_norm_degenerate)

text \<open>
  C2. On a proper range \<open>min_bpm < max_bpm\<close> and for an output range
  \<open>lo_note \<le> hi_note\<close> (the defaults are 48 and 84), the note mapping returns an integer
  for every finite BPM, inside or outside the BPM range; the integer lies in
  \<open>[lo_note, hi_note]\<close>; a larger BPM never gives a smaller note; and the two ends of the
  BPM range are mapped to the two ends of the note range.
\<close>

theorem note_mapping_correct:
  assumes "min_bpm < max_bpm" and "lo_note \<le> hi_note" and "b \<le> b'"
  shows "\<exists>n n'. bpm_to_note_quantized (Fin b) (Fin min_bpm) (Fin max_bpm) lo_note hi_note = Inr n
           \<and> bpm_to_note_quantized (Fin b') (Fin min_bpm) (Fin max_bpm) lo_note hi_note = Inr n'
           \<and> lo_note \<le> n \<and> n \<le> n' \<and> n' \<le> hi_note
           \<and> bpm_to_note_quantized (Fin min_bpm) (Fin min_bpm) (Fin max_bpm) lo_note hi_note = Inr lo_note
           \<and> bpm_to_note_quantized (Fin max_bpm) (Fin min_bpm) (Fin max_bpm) lo_note hi_note = Inr hi_note"
proof -
  let ?s = "\<lambda>x. (min (max x min_bpm) max_bpm - min_bpm) / (max_bpm - min_bpm)"
  let ?f = "\<lambda>x. real_of_int lo_note + ?s x * of_int (hi_note - lo_note)"
  have lower: "lo_note \<le> py_round (?f b)"
    using py_round_mono[OF scaled_lower[OF assms(2), of "?s b"]] norm_unit[OF assms(1), of b]
    by (simp only: py_round_of_int)
  have upper: "py_round (?f b') \<le> hi_note"
    using py_round_mono[OF scaled_upper[OF assms(2), of "?s b'"]] norm_unit[OF assms(1), of b']
    by (simp only: py_round_of_int)
  have mono: "py_round (?f b) \<le> py_round (?f b')"
    by (intro py_round_mono scaled_mono assms(2) norm_mono assms(1) assms(3))
  have at_min: "?f min_bpm = of_int lo_note"
    using assms(1) by simp
  have at_max: "?f max_bpm = of_int hi_note"
    using assms(1) by simp
  show ?thesis
    using lower upper mono
    by (simp only: note_finite[OF assms(1)] at_min at_max py_round_of_int) simp
qed

theorem note_mapping_correct_witness:
  "(40::real) < 180 \<and> min_note \<le> max_note \<and> (30::real) \<le> 100 \<and>
   (\<exists>n n'. bpm_to_note_quantized (Fin 30) (Fin 40) (Fin 180) min_note max_note = Inr n
      \<and> bpm_to_note_quantized (Fin 100) (Fin 40) (Fin 180) min_note max_note = Inr n'
      \<and> min_note \<le> n \<and> n \<le> n' \<and> n' \<le> max_note
      \<and> bpm_to_note_quantized (Fin 40) (Fin 40) (Fin 180) min_note max_note = Inr min_note
      \<and> bpm_to_note_quantized (Fin 180) (Fin 40) (Fin 180) min_note max_note = Inr max_note)"
proof -
  have h1: "(40::real) < 180" by simp
  have h2: "min_note \<le> max_note" by (simp add: min_note_def max_note_def)
  have h3: "(30::real) \<le> 100" by simp
  show ?thesis
    using note_mapping_correct[OF h1 h2 h3] h1 h2 h3 by simp
qed

lemma py_trunc_gt: "x - 1 < real_of_int (py_trunc x)"
  unfolding py_trunc_def by (auto; linarith)

lemma sqrt_ge_self: "0 \<le> s \<Longrightarrow> s \<le> 1 \<Longrightarrow> s \<le> sqrt s"
proof -
  assume a: "0 \<le> s" "s \<le> 1"
  then have "s * s \<le> s * 1" by (intro mult_left_mono) simp_all
  then have "s\<^sup>2 \<le> s" by (simp add: power2_eq_square)
  then have "sqrt (s\<^sup>2) \<le> sqrt s" by (simp only: real_sqrt_le_iff)
  with a show ?thesis by simp
qed

lemma scaled_mono2:
  fixes s t :: real
  shows "lo \<le> hi \<Longrightarrow> s \<le> t \<Longrightarrow>
         of_int lo + of_int (hi - lo) * s \<le> of_int lo + of_int (hi - lo) * t"
  by (simp add: mult_left_mono)

lemma sqrt_1600: "sqrt (1 / 1600) = 1 / 40"
  by (rule real_sqrt_unique) (simp_all add: power2_eq_square)

text \<open>
  C3, as the claim states it, fails. The velocity is truncated to an integer, so just
  above the bottom of the range it stays at \<open>min_velocity\<close> while the straight line has
  already left it: on the range 40..200 with the default velocities 50..70, the BPM 40.1
  lies strictly inside the range, the normalised value is \<open>1/1600\<close>, its square root is
  \<open>1/40\<close>, the velocity is \<open>int(50.5) = 50\<close>, and linear interpolation gives \<open>50.0125\<close>.
\<close>

theorem velocity_below_linear:
  "(40::real) < 401 / 10 \<and> (401 / 10 :: real) < 200 \<and>
   bpm_to_velocity (Fin (401 / 10)) (Fin 40) (Fin 200) min_velocity max_velocity = Inr 50 \<and>
   real_of_int 50 < linear_interpolation (401 / 10) 40 200 min_velocity max_velocity"
proof -
  have n: "(min (max (401 / 10) 40) 200 - 40) / (200 - 40) = (1 / 1600 :: real)" by simp
  have "bpm_to_velocity (Fin (401 / 10)) (Fin 40) (Fin 200) min_velocity max_velocity = Inr 50"
    by (simp only: velocity_finite[of 40 200] n sqrt_1600)
       (simp add: py_trunc_def min_velocity_def max_velocity_def)
  moreover have "real_of_int 50 < linear_interpolation (401 / 10) 40 200 min_velocity max_velocity"
    by (simp add: linear_interpolation_def min_velocity_def max_velocity_def)
  ultimately show ?thesis by simp
qed

text \<open>
  C3, amended. On a proper range \<open>min_bpm < max_bpm\<close> and for an output range
  \<open>lo_velocity \<le> hi_velocity\<close> (the defaults are 50 and 70), the velocity mapping returns
  an integer for every finite BPM; the integer lies in \<open>[lo_velocity, hi_velocity]\<close>; a
  larger BPM never gives a smaller velocity; the velocity is the truncation of
  \<open>lo_velocity + (hi_velocity - lo_velocity) * sqrt(norm)\<close>, the square-root curve; and
  it is at least the truncation of the value that linear interpolation gives, hence
  less than 1 below that value itself.
\<close>

theorem velocity_mapping:
  assumes "min_bpm < max_bpm" and "lo_velocity \<le> hi_velocity" and "b \<le> b'"
  shows "\<exists>v v'. bpm_to_velocity (Fin b) (Fin min_bpm) (Fin max_bpm) lo_velocity hi_velocity = Inr v
           \<and> bpm_to_velocity (Fin b') (Fin min_bpm) (Fin max_bpm) lo_velocity hi_velocity = Inr v'
           \<and> lo_velocity \<le> v \<and> v \<le> v' \<and> v' \<le> hi_velocity
           \<and> v = py_trunc (of_int lo_velocity + of_int (hi_velocity - lo_velocity)
                   * sqrt ((min (max b min_bpm) max_bpm - min_bpm) / (max_bpm - min_bpm)))
           \<and> py_trunc (linear_interpolation b min_bpm max_bpm lo_velocity hi_velocity) \<le> v
           \<and> linear_interpolation b min_bpm max_bpm lo_velocity hi_velocity - 1 < of_int v"
proof -
  let ?s = "\<lambda>x. (min (max x min_bpm) max_bpm - min_bpm) / (max_bpm - min_bpm)"
  let ?f = "\<lambda>x. real_of_int lo_velocity + of_int (hi_velocity - lo_velocity) * sqrt (?s x)"
  have u: "0 \<le> ?s b" "?s b \<le> 1" "0 \<le> ?s b'" "?s b' \<le> 1"
    using norm_unit[OF assms(1), of b] norm_unit[OF assms(1), of b'] by simp_all
  have su: "0 \<le> sqrt (?s b)" "sqrt (?s b') \<le> 1"
    using u by simp_all
  have "real_of_int lo_velocity \<le> ?f b"
    using su(1) assms(2) by simp
  then have lower: "lo_velocity \<le> py_trunc (?f b)"
    using py_trunc_mono[of "of_int lo_velocity" "?f b"] by (simp only: py_trunc_of_int)
  have "of_int (hi_velocity - lo_velocity) * sqrt (?s b') \<le> real_of_int (hi_velocity - lo_velocity) * 1"
    using su(2) assms(2) by (intro mult_left_mono) simp_all
  then have "?f b' \<le> of_int hi_velocity" by simp
  then have upper: "py_trunc (?f b') \<le> hi_velocity"
    using py_trunc_mono[of "?f b'" "of_int hi_velocity"] by (simp only: py_trunc_of_int)
  have "sqrt (?s b) \<le> sqrt (?s b')"
    using norm_mono[OF assms(1) assms(3)] by (simp only: real_sqrt_le_iff)
  then have mono: "py_trunc (?f b) \<le> py_trunc (?f b')"
    by (intro py_trunc_mono scaled_mono2 assms(2))
  have lin: "linear_interpolation b min_bpm max_bpm lo_velocity hi_velocity \<le> ?f b"
    unfolding linear_interpolation_def
    by (intro scaled_mono2 assms(2) sqrt_ge_self u)
  then have lin_trunc:
    "py_trunc (linear_interpolation b min_bpm max_bpm lo_velocity hi_velocity) \<le> py_trunc (?f b)"
    by (rule py_trunc_mono)
  have lin_gt:
    "linear_interpolation b min_bpm max_bpm lo_velocity hi_velocity - 1 < of_int (py_trunc (?f b))"
    using lin py_trunc_gt[of "?f b"] by linarith
  show ?thesis
    using lower upper mono lin_trunc lin_gt
    by (simp only: velocity_finite[OF assms(1)]) simp
qed

theorem velocity_mapping_witness:
  "(40::real) < 200 \<and> min_velocity \<le> max_velocity \<and> (401 / 10 :: real) \<le> 120 \<and>
   (\<exists>v v'. bpm_to_velocity (Fin (401 / 10)) (Fin 40) (Fin 200) min_velocity max_velocity = Inr v
           \<and> bpm_to_velocity (Fin 120) (Fin 40) (Fin 200) min_velocity max_velocity = Inr v'
           \<and> min_velocity \<le> v \<and> v \<le> v' \<and> v' \<le> max_velocity
           \<and> py_trunc (linear_interpolation (401 / 10) 40 200 min_velocity max_velocity) \<le> v
           \<and> linear_interpolation (401 / 10) 40 200 min_velocity max_velocity - 1 < of_int v)"
proof -
  have h1: "(40::real) < 200" by simp
  have h2: "min_velocity \<le> max_velocity" by (simp add: min_velocity_def max_velocity_def)
  have h3: "(401 / 10 :: real) \<le> 120" by simp
  show ?thesis
    using velocity_mapping[OF h1 h2 h3] h1 h2 h3 by blast
qed

section \<open>The discrete glide\<close>

lemma glide_step_zero: "glide_step speed 0 = 0"
  by (simp add: glide_step_def py_round_def)

lemma glide_step_pos:
  assumes "0 \<le> speed" "speed \<le> 1" "0 < d"
  shows "1 \<le> glide_step speed d \<and> glide_step speed d \<le> d"
proof -
  let ?r = "py_round (of_int d * speed)"
  have "0 \<le> real_of_int d * speed" using assms by simp
  then have "- 1 < real_of_int ?r"
    using py_round_lower[of "of_int d * speed"] by linarith
  then have lo: "0 \<le> ?r" by linarith
  have "real_of_int d * speed \<le> real_of_int d * 1"
    using assms by (intro mult_left_mono) simp_all
  then have "real_of_int ?r < real_of_int d + 1"
    using py_round_upper[of "of_int d * speed"] by linarith
  then have hi: "?r \<le> d" by linarith
  show ?thesis
    using lo hi assms(3) by (auto simp: glide_step_def Let_def)
qed

lemma glide_step_neg:
  assumes "0 \<le> speed" "speed \<le> 1" "d < 0"
  shows "d \<le> glide_step speed d \<and> glide_step speed d \<le> - 1"
proof -
  let ?r = "py_round (of_int d * speed)"
  have "real_of_int d * speed \<le> 0" using assms by (simp add: mult_nonpos_nonneg)
  then have "real_of_int ?r < 1"
    using py_round_upper[of "of_int d * speed"] by linarith
  then have hi: "?r \<le> 0" by linarith
  have "real_of_int (- d) * speed \<le> real_of_int (- d) * 1"
    using assms by (intro mult_left_mono) simp_all
  then have "real_of_int d \<le> real_of_int d * speed" by simp
  then have "real_of_int d - 1 < real_of_int ?r"
    using py_round_lower[of "of_int d * speed"] by linarith
  then have lo: "d \<le> ?r" by linarith
  show ?thesis
    using lo hi assms(3) by (auto simp: glide_step_def Let_def)
qed

lemma glide_update_closer:
  assumes "0 \<le> speed" "speed \<le> 1" "current \<noteq> target"
  shows "min current target \<le> glide_update speed target current
       \<and> glide_update speed target current \<le> max current target
       \<and> \<bar>target - glide_update speed target current\<bar> < \<bar>target - current\<bar>
       \<and> glide_update speed target current \<noteq> current"
proof (cases "current < target")
  case True
  then show ?thesis
    using glide_step_pos[OF assms(1,2), of "target - current"]
    by (simp add: glide_update_def)
next
  case False
  with assms(3) have "target - current < 0" by simp
  then show ?thesis
    using glide_step_neg[OF assms(1,2), of "target - current"]
    by (simp add: glide_update_def)
qed

lemma glide_update_fixed: "glide_update speed target target = target"
  by (simp add: glide_update_def glide_step_zero)

lemma glide_reaches:
  assumes "0 \<le> speed" "speed \<le> 1"
  shows "nat \<bar>target - current\<bar> \<le> n \<Longrightarrow> (glide_update speed target ^^ n) current = target"
proof (induction n arbitrary: current)
  case 0
  then show ?case by simp
next
  case (Suc n)
  show ?case
  proof (cases "current = target")
    case True
    have "(glide_update speed target ^^ Suc n) target = (glide_update speed target ^^ n) target"
      by (simp only: funpow_Suc_right o_apply glide_update_fixed)
    with True Suc.IH[of target] show ?thesis by simp
  next
    case False
    have "nat \<bar>target - glide_update speed target current\<bar> \<le> n"
      using glide_update_closer[OF assms False] Suc.prems by linarith
    then have "(glide_update speed target ^^ n) (glide_update speed target current) = target"
      by (rule Suc.IH)
    then show ?thesis by (simp only: funpow_Suc_right o_apply)
  qed
qed

text \<open>
  C4. With the glide speed 0.2 and a fixed target, the glide step applied again and again
  from any \<open>current \<noteq> target\<close> reaches the target within \<open>|target - current| + 1\<close>
  steps. (It is there after \<open>|target - current|\<close> steps and then stays: each step moves
  at least one unit closer, and at the target the step is 0.)
\<close>

theorem discrete_glide_converges:
  assumes "current \<noteq> target"
  shows "\<exists>k \<le> nat \<bar>target - current\<bar> + 1.
           (glide_update note_glide_speed target ^^ k) current = target"
proof -
  have "(glide_update note_glide_speed target ^^ nat \<bar>target - current\<bar>) current = target"
    by (rule glide_reaches) (simp_all add: note_glide_speed_def)
  then show ?thesis
    by (intro exI[of _ "nat \<bar>target - current\<bar>"]) simp
qed

theorem discrete_glide_converges_witness:
  "(48::int) \<noteq> 84 \<and> (\<exists>k \<le> 37. (glide_update note_glide_speed 84 ^^ k) 48 = 84)"
  using discrete_glide_converges[of 48 84] by simp

text \<open>
  C9. With the glide speed 0.2, one glide step from \<open>current \<noteq> target\<close> gives a new
  current note that lies between the old one and the target (both included), is
  strictly closer to the target, and differs from the old one by at least 1.
\<close>

theorem discrete_glide_no_overshoot:
  assumes "current \<noteq> target"
  shows "min current target \<le> glide_update note_glide_speed target current
       \<and> glide_update note_glide_speed target current \<le> max current target
       \<and> \<bar>target - glide_update note_glide_speed target current\<bar> < \<bar>target - current\<bar>
       \<and> 1 \<le> \<bar>glide_update note_glide_speed target current - current\<bar>"
  using glide_update_closer[OF _ _ assms, of note_glide_speed]
  by (simp add: note_glide_speed_def) linarith

theorem discrete_glide_no_overshoot_witness:
  "(48::int) \<noteq> 84
   \<and> min 48 84 \<le> glide_update note_glide_speed 84 48
   \<and> glide_update note_glide_speed 84 48 \<le> max 48 84
   \<and> \<bar>84 - glide_update note_glide_speed 84 48\<bar> < \<bar>84 - (48::int)\<bar>
   \<and> 1 \<le> \<bar>glide_update note_glide_speed 84 48 - 48\<bar>"
proof -
  have h: "(48::int) \<noteq> 84" by simp
  show ?thesis
    using discrete_glide_no_overshoot[OF h] h by blast
qed

section \<open>The continuous glide\<close>

lemma cc_step_ge_1: "1 \<le> cc_step speed target_cc cc_value"
  by (simp add: cc_step_def)

lemma cc_advance_closer:
  assumes "cc_value \<noteq> target_cc"
  shows "\<bar>target_cc - cc_advance speed target_cc cc_value\<bar> < \<bar>target_cc - cc_value\<bar>"
  using cc_step_ge_1[of speed target_cc cc_value] assms
  by (auto simp: cc_advance_def Let_def min_def max_def)

lemma cc_glide_loop_returns:
  "\<exists>sent'. cc_glide_loop speed target_cc cc_value sent = Some (target_cc, sent')
          \<and> length sent' \<le> length sent + nat \<bar>target_cc - cc_value\<bar>"
proof (induction "nat \<bar>target_cc - cc_value\<bar>" arbitrary: cc_value sent rule: less_induct)
  case less
  show ?case
  proof (cases "cc_value = target_cc")
    case True
    then show ?thesis by (subst cc_glide_loop.simps) simp
  next
    case False
    let ?c = "cc_advance speed target_cc cc_value"
    have closer: "nat \<bar>target_cc - ?c\<bar> < nat \<bar>target_cc - cc_value\<bar>"
      using cc_advance_closer[OF False, of speed] by linarith
    from less[OF closer, of "sent @ [Control_change 113 ?c]"]
    obtain sent' where
      r: "cc_glide_loop speed target_cc ?c (sent @ [Control_change 113 ?c]) = Some (target_cc, sent')"
      and l: "length sent' \<le> length (sent @ [Control_change 113 ?c]) + nat \<bar>target_cc - ?c\<bar>"
      by blast
    have "cc_glide_loop speed target_cc cc_value sent = Some (target_cc, sent')"
      using False r by (subst cc_glide_loop.simps) simp
    moreover have "length sent' \<le> length sent + nat \<bar>target_cc - cc_value\<bar>"
    proof -
      from l have "length sent' \<le> Suc (length sent) + nat \<bar>target_cc - ?c\<bar>" by simp
      with closer show ?thesis by linarith
    qed
    ultimately show ?thesis by blast
  qed
qed

text \<open>
  C5, as the claim states it, fails in the increment: the script computes
  \<open>max(1, int(abs(target_cc - cc_value) * glide_speed))\<close>, with \<open>int\<close>, which truncates,
  and not with \<open>round\<close>. From \<open>cc_value = 0\<close> to \<open>target_cc = 16\<close> at the script's glide
  speed 0.1 the product is 1.6: the script steps by 1 to the value 1, the increment of the
  claim is 2.
\<close>

theorem cc_increment_truncates:
  "cc_step glide_speed 16 0 = 1 \<and> spec_cc_step glide_speed 16 0 = 2 \<and>
   cc_advance glide_speed 16 0 = 1"
  by (simp add: cc_step_def spec_cc_step_def cc_advance_def glide_speed_def py_trunc_def py_round_def)

text \<open>
  C5, amended. The loop steps \<open>cc_value\<close> toward \<open>target_cc\<close> in increments of
  \<open>max(1, int(|target - current| * glide_speed))\<close>, never past the target. For every
  initial \<open>cc_value\<close>, every \<open>target_cc\<close> and every glide speed (in particular for values
  in 0..127 and a speed in (0, 1]) it terminates with \<open>cc_value == target_cc\<close>, after at
  most \<open>|target_cc - cc_value|\<close> messages.
\<close>

theorem cc_glide_terminates:
  "\<exists>sent. cc_glide_loop speed target_cc cc_value [] = Some (target_cc, sent)
         \<and> length sent \<le> nat \<bar>target_cc - cc_value\<bar>"
  using cc_glide_loop_returns[of speed target_cc cc_value "[]"] by simp

section \<open>The moving median\<close>

lemma np_median_const3: "np_median [c, c, c] = c"
  by (cases c) (simp_all add: np_median_def fl_is_nan_def fl_sort_def)

lemma moving_median_length:
  "data \<noteq> [] \<Longrightarrow> \<exists>out. moving_median data 3 = Inr out \<and> length out = length data"
  by (simp add: moving_median_def np_pad_edge_def)

lemma moving_median_replicate:
  "0 < n \<Longrightarrow> moving_median (replicate n c) 3 = Inr (replicate n c)"
proof -
  assume n: "0 < n"
  have pad: "np_pad_edge (replicate n c) (int (3 div 2)) (int 3 - 1 - int (3 div 2))
               = Inr (replicate (n + 2) c)"
    using n by (simp add: np_pad_edge_def replicate_append_same)
  have win: "\<And>i. i < n \<Longrightarrow> take 3 (drop i (replicate (n + 2) c)) = [c, c, c]"
  proof -
    fix i assume "i < n"
    then have m: "min 3 (n + 2 - i) = 3" by simp
    have "take 3 (drop i (replicate (n + 2) c)) = replicate 3 c"
      by (simp only: drop_replicate take_replicate m)
    then show "take 3 (drop i (replicate (n + 2) c)) = [c, c, c]"
      by (simp add: numeral_3_eq_3)
  qed
  have med: "\<And>i. i \<in> set [0..<n] \<Longrightarrow> np_median (take 3 (drop i (replicate (n + 2) c))) = c"
  proof -
    fix i assume "i \<in> set [0..<n]"
    then have "i < n" by simp
    from win[OF this] show "np_median (take 3 (drop i (replicate (n + 2) c))) = c"
      by (simp only: np_median_const3)
  qed
  have "map (\<lambda>i. np_median (take 3 (drop i (replicate (n + 2) c)))) [0..<n] = map (\<lambda>i. c) [0..<n]"
    by (rule map_cong[OF refl]) (rule med)
  also have "\<dots> = replicate n c" by (simp add: map_replicate_const)
  finally show ?thesis
    by (simp only: moving_median_def pad sum.case length_replicate)
qed

text \<open>
  C8. For every non-empty list the edge-padded moving median of window 3 returns a list
  of the same length, and on a constant list (here the constant list as long as \<open>data\<close>)
  it returns that list unchanged.
\<close>

theorem moving_median_constant:
  assumes "data \<noteq> []"
  shows "(\<exists>out. moving_median data 3 = Inr out \<and> length out = length data)
       \<and> moving_median (replicate (length data) c) 3 = Inr (replicate (length data) c)"
  using assms moving_median_length[OF assms] moving_median_replicate[of "length data" c] by simp

theorem moving_median_constant_witness:
  "[Fin 1, Fin 2, Fin 5] \<noteq> [] \<and>
   (\<exists>out. moving_median [Fin 1, Fin 2, Fin 5] 3 = Inr out \<and> length out = 3)
       \<and> moving_median (replicate 3 (Fin 7)) 3 = Inr (replicate 3 (Fin 7))"
  using moving_median_constant[of "[Fin 1, Fin 2, Fin 5]" "Fin 7"] by (simp add: numeral_3_eq_3)

section \<open>The detection passes\<close>

lemma live_estimate_few: "length peaks < 2 \<Longrightarrow> live_estimate peaks = Inr None"
  by (simp add: live_estimate_def)

lemma live3_estimate_few: "length peak_times < 2 \<Longrightarrow> live3_estimate peak_times = Inr None"
  by (simp add: live3_estimate_def)

text \<open>
  C6, as the claim states it, fails on the pre-recorded bridge: its detection runs once,
  and with fewer than two peaks (here one peak, at 1.2 s with height 1) the script raises
  \<open>ValueError("Not enough R-peaks detected. ...")\<close>. No message has been sent, but the
  run ends with an error; it is not a silent skip.
\<close>

theorem prerecorded_few_peaks_raises:
  "prerecorded_bridge [(Fin (6 / 5), Fin 1)] = Some ([], Inl NotEnoughPeaks)"
  by (simp add: prerecorded_bridge_def)

text \<open>
  C6, amended. In the live bridges, a detection pass that finds fewer than two peaks
  sends no message, raises nothing and leaves the Mapping State (\<open>current_note\<close>,
  \<open>last_bpm\<close>) exactly as it was, whatever the change threshold. In the pre-recorded
  bridge, fewer than two peaks end the run with the \<open>ValueError\<close> of its guard, before any
  message is sent.
\<close>

theorem no_signal_pass:
  assumes "length peaks < 2" and "length peak_times < 2" and "length r_peaks < 2"
  shows "live_pass threshold peaks s = Inr (s, [])
       \<and> live3_pass threshold3 peak_times s = Inr (s, [])
       \<and> prerecorded_bridge r_peaks = Some ([], Inl NotEnoughPeaks)"
  using assms
  by (simp add: live_pass_def live3_pass_def live_estimate_few live3_estimate_few and_then_def
        prerecorded_bridge_def)

theorem no_signal_pass_witness:
  "length [1200::nat] < 2 \<and> length [Fin (6 / 5)] < 2 \<and> length [(Fin (6 / 5), Fin 2)] < 2
   \<and> live_pass live_bpm_change_threshold [1200] initial_state = Inr (initial_state, [])
   \<and> live3_pass live3_bpm_change_threshold [Fin (6 / 5)] initial_state = Inr (initial_state, [])
   \<and> prerecorded_bridge [(Fin (6 / 5), Fin 2)] = Some ([], Inl NotEnoughPeaks)"
  using no_signal_pass[of "[1200]" "[Fin (6 / 5)]" "[(Fin (6 / 5), Fin 2)]"
          live_bpm_change_threshold initial_state live3_bpm_change_threshold]
  by simp

lemma glide_note_first: "glide_note None target_note = target_note"
  by (simp add: glide_note_def glide_update_def glide_step_def py_round_def)

text \<open>
  The sanity band of \<open>bridge_live_test.py\<close> and \<open>bridge_live_test2.py\<close>: an estimate below
  30 or above 200 leaves the pass by \<open>continue\<close>, with the state as it was and nothing sent.
\<close>

lemma live_pass_sanity_band:
  assumes "1 < length peaks" and "current_bpm (live_bpm_values peaks) = Inr bpm_value"
    and "fl_less bpm_value (Fin 30) \<or> fl_less (Fin 200) bpm_value"
  shows "live_pass threshold peaks s = Inr (s, [])"
  using assms by (auto simp add: live_pass_def live_estimate_def and_then_def Let_def)

lemma moving_median_example: "moving_median [Fin 3, Fin (7 / 2)] 3 = Inr [Fin 3, Fin (7 / 2)]"
  by (simp add: moving_median_def np_pad_edge_def np_median_def fl_is_nan_def fl_sort_def upt_rec)

lemma live3_estimate_example:
  "live3_estimate [Fin 0, Fin 3, Fin (13 / 2)]
     = Inr (Some (Fin (120 / 7), Fin (120 / 7), Fin 20, Fin (7 / 2)))"
  by (simp add: live3_estimate_def fl_sub_def moving_median_example and_then_def np_minimum_def
        np_maximum_def fl_is_nan_def py_last_def)

text \<open>
  C7 on \<open>bridge_live_test3.py\<close>. The main loop of this bridge has no sanity band: the
  last smoothed BPM goes to the update gate as it is. With peaks at 0 s, 3 s and 6.5 s
  (inside its ten-second buffer) the RR intervals are 3 s and 3.5 s, the smoothed BPM
  values are 20 and 120/7, the estimate is \<open>120/7 < 30\<close>, and on the first pass the bridge
  plays the note 48 with velocity 50 and stores the estimate in \<open>last_bpm\<close>.
\<close>

theorem live3_emits_below_band:
  "live3_pass live3_bpm_change_threshold [Fin 0, Fin 3, Fin (13 / 2)] initial_state
     = Inr (\<lparr>current_note = Some 48, last_bpm = Some (Fin (120 / 7))\<rparr>,
            [Note_on 48 50, Note_off 48 0])
   \<and> fl_less (Fin (120 / 7)) (Fin 30)"
  by (simp add: live3_pass_def live3_estimate_example and_then_def gate_open_def initial_state_def
        glide_note_first bpm_to_note_quantized_def bpm_to_velocity_def bpm_norm_def np_clip_def
        np_minimum_def np_maximum_def fl_is_nan_def fl_sub_def py_round_def py_trunc_def py_sleep_def
        min_note_def max_note_def min_velocity_def max_velocity_def)

text \<open>
  \<open>current_note\<close> and \<open>last_bpm\<close> are set in the same block, so a pass keeps them
  \<open>None\<close> together: a pass that finds \<open>last_bpm\<close> unset finds \<open>current_note\<close> unset too.
\<close>

lemma live_pass_none_together:
  assumes "live_pass threshold peaks s = Inr (s', events)"
    and "(current_note s = None) = (last_bpm s = None)"
  shows "(current_note s' = None) = (last_bpm s' = None)"
  using assms
  by (auto simp: live_pass_def and_then_def Let_def
        split: sum.splits option.splits if_splits prod.splits)

lemma live_bpm_values_example:
  "live_bpm_values [0, 1000, 1900, 2700] = [Fin (200 / 3), Fin (200 / 3), Fin 75]"
  by (simp add: live_bpm_values_def fs_def fl_sub_def medfilt_def np_median_def fl_is_nan_def
        fl_sort_def upt_rec)

lemma live_estimate_example:
  "live_estimate [0, 1000, 1900, 2700] = Inr (Some (Fin (200 / 3), Fin (200 / 3), Fin 75))"
  by (simp add: live_estimate_def live_bpm_values_example current_bpm_def np_median_def
        fl_is_nan_def fl_sort_def and_then_def np_minimum_def np_maximum_def py_max_def py_min_def)

text \<open>
  C10. On the first pass of \<open>bridge_live_test.py\<close> that yields a valid estimate (the
  state still has \<open>last_bpm\<close> and \<open>current_note\<close> unset, the estimate passed the guards,
  and the Mapper returned a target note and a velocity), the update gate is open whatever
  the change threshold, \<open>current_note\<close> is initialised to the target note, the glide step
  is 0, and the note sent on and off is the target note itself; the state then holds the
  target note and the estimate.
\<close>

theorem first_estimate_plays_target:
  assumes "current_note s = None" and "last_bpm s = None"
    and "live_estimate peaks = Inr (Some (bpm_value, min_bpm, max_bpm))"
    and "bpm_to_note_quantized bpm_value min_bpm max_bpm min_note max_note = Inr target_note"
    and "bpm_to_velocity bpm_value min_bpm max_bpm min_velocity max_velocity = Inr velocity"
  shows "gate_open threshold bpm_value (last_bpm s)
       \<and> live_pass threshold peaks s
           = Inr (\<lparr>current_note = Some target_note, last_bpm = Some bpm_value\<rparr>,
                  [Note_on target_note velocity, Note_off target_note 0])"
  using assms
  by (simp add: live_pass_def and_then_def gate_open_def glide_note_first)

theorem first_estimate_plays_target_witness:
  "current_note initial_state = None \<and> last_bpm initial_state = None
   \<and> live_estimate [0, 1000, 1900, 2700] = Inr (Some (Fin (200 / 3), Fin (200 / 3), Fin 75))
   \<and> bpm_to_note_quantized (Fin (200 / 3)) (Fin (200 / 3)) (Fin 75) min_note max_note = Inr 48
   \<and> bpm_to_velocity (Fin (200 / 3)) (Fin (200 / 3)) (Fin 75) min_velocity max_velocity = Inr 50
   \<and> gate_open live_bpm_change_threshold (Fin (200 / 3)) (last_bpm initial_state)
   \<and> live_pass live_bpm_change_threshold [0, 1000, 1900, 2700] initial_state
        = Inr (\<lparr>current_note = Some 48, last_bpm = Some (Fin (200 / 3))\<rparr>,
               [Note_on 48 50, Note_off 48 0])"
proof -
  have h1: "current_note initial_state = None" by (simp add: initial_state_def)
  have h2: "last_bpm initial_state = None" by (simp add: initial_state_def)
  have h4: "bpm_to_note_quantized (Fin (200 / 3)) (Fin (200 / 3)) (Fin 75) min_note max_note = Inr 48"
    by (simp add: note_finite py_round_def min_note_def)
  have h5: "bpm_to_velocity (Fin (200 / 3)) (Fin (200 / 3)) (Fin 75) min_velocity max_velocity = Inr 50"
    by (simp add: velocity_finite py_trunc_def min_velocity_def)
  show ?thesis
    using first_estimate_plays_target[OF h1 h2 live_estimate_example h4 h5, of live_bpm_change_threshold]
      h1 h2 live_estimate_example h4 h5
    by simp
qed

end
